theory Spec2Isabelle
  imports Complex_Main "HOL-Library.Char_ord" "HOL-Library.List_Lexorder"
begin

section \<open>Data model\<close>

text \<open>
  The ORM classes \<open>User\<close> and \<open>Job\<close> of \<open>app/database/models.py\<close>. A column that can
  hold \<open>None\<close> at the Python level is an \<open>option\<close>; the ranker guards every text column it
  reads with \<open>or ""\<close>, so the three text columns it reads are options even where the table
  declares them \<open>nullable=False\<close>. Text is ASCII: a \<open>char\<close> is a code point below 128.
  Timestamps are abstract naturals, the float salary columns are reals.
\<close>

record User =
  user_id :: int
  email :: string
  full_name :: "string option"
  has_disability :: bool
  disability_type :: "string option"
  accessibility_needs :: "string option"
  user_created_at :: "nat option"
  user_updated_at :: "nat option"

record Job =
  job_id :: int
  title :: "string option"
  company :: "string option"
  description :: "string option"
  skills :: "string option"
  location :: "string option"
  is_remote :: bool
  is_inclusive :: bool
  accessibility_features :: "string option"
  salary_min :: "real option"
  salary_max :: "real option"
  application_url :: "string option"
  created_at :: "nat option"
  updated_at :: "nat option"

datatype error =
    ValueError string
  | IndexError
  | ValidationError string
  | HTTPException nat string

section \<open>Text composition\<close>

text \<open>Python's \<open>x or ""\<close>: \<open>None\<close> and the empty string both give the empty string.\<close>

definition or_empty :: "string option \<Rightarrow> string" where
  "or_empty x = (case x of None \<Rightarrow> [] | Some s \<Rightarrow> s)"

text \<open>
  \<open>str.isspace\<close> on ASCII: tab, line feed, vertical tab, form feed, carriage return,
  the four separators 28 to 31, and the space.
\<close>

definition isspace :: "char \<Rightarrow> bool" where
  "isspace c = (let n = (of_char c :: nat) in (9 \<le> n \<and> n \<le> 13) \<or> (28 \<le> n \<and> n \<le> 32))"

text \<open>\<open>str.strip()\<close> without argument: leading and trailing whitespace removed.\<close>

definition strip :: "string \<Rightarrow> string" where
  "strip s = rev (dropWhile isspace (rev (dropWhile isspace s)))"

definition combine_job_text :: "Job \<Rightarrow> string" where
  "combine_job_text job =
     (let title' = or_empty (title job);
          skills' = or_empty (skills job);
          description' = or_empty (description job)
      in strip (title' @ '' '' @ skills' @ '' '' @ description'))"

definition combine_user_profile_text :: "User \<Rightarrow> string" where
  "combine_user_profile_text user =
     (let full_name' = or_empty (full_name user);
          disability_type' = or_empty (disability_type user);
          accessibility_needs' = or_empty (accessibility_needs user)
      in strip (full_name' @ '' '' @ disability_type' @ '' '' @ accessibility_needs'))"

section \<open>The text analyzer of the vectorizer\<close>

text \<open>
  \<open>TfidfVectorizer\<close> and \<open>cosine_similarity\<close> are library code (scikit-learn), called by
  the ranker with the configuration \<open>max_features=5000\<close>, \<open>ngram_range=(1, 2)\<close>,
  \<open>min_df=1\<close>, \<open>stop_words='english'\<close>, \<open>lowercase=True\<close>,
  \<open>strip_accents='unicode'\<close>. They are modelled from the library's documented
  behaviour. The analyzer (the callable that turns one document into its list of terms)
  is a parameter of the vectorizer model below, so that every general theorem holds for
  whatever the analyzer does with a text; \<open>build_analyzer\<close> is the analyzer of this
  configuration on ASCII text, with the library's English stop-word table as the
  parameter \<open>stop_words\<close>.
\<close>

type_synonym analyzer = "string \<Rightarrow> string list"

definition lower_char :: "char \<Rightarrow> char" where
  "lower_char c = (let n = (of_char c :: nat) in if 65 \<le> n \<and> n \<le> 90 then char_of (n + 32) else c)"

definition lower :: "string \<Rightarrow> string" where
  "lower s = map lower_char s"

text \<open>On a text that encodes as ASCII the library returns the text unchanged.\<close>

definition strip_accents_unicode :: "string \<Rightarrow> string" where
  "strip_accents_unicode s = s"

text \<open>The class \<open>\w\<close> on ASCII: digits, letters and the underscore.\<close>

definition is_word_char :: "char \<Rightarrow> bool" where
  "is_word_char c =
     (let n = (of_char c :: nat)
      in (48 \<le> n \<and> n \<le> 57) \<or> (65 \<le> n \<and> n \<le> 90) \<or> n = 95 \<or> (97 \<le> n \<and> n \<le> 122))"

text \<open>
  The maximal runs of word characters of a text, in order; \<open>acc\<close> holds the current run
  reversed.
\<close>

fun word_runs :: "string \<Rightarrow> string \<Rightarrow> string list" where
  "word_runs acc [] = (if acc = [] then [] else [rev acc])"
| "word_runs acc (c # cs) =
     (if is_word_char c then word_runs (c # acc) cs
      else (if acc = [] then [] else [rev acc]) @ word_runs [] cs)"

text \<open>
  The default token pattern \<open>\b\w\w+\b\<close>: the maximal runs of at least two word
  characters.
\<close>

definition tokenize :: "string \<Rightarrow> string list" where
  "tokenize s = filter (\<lambda>w. 2 \<le> length w) (word_runs [] s)"

fun bigrams :: "string list \<Rightarrow> string list" where
  "bigrams (a # b # rest) = (a @ '' '' @ b) # bigrams (b # rest)"
| "bigrams _ = []"

text \<open>
  Lowercase, strip accents, tokenize, drop the stop words, then emit the unigrams followed
  by the bigrams of the remaining tokens.
\<close>

definition build_analyzer :: "string list \<Rightarrow> analyzer" where
  "build_analyzer stop_words doc =
     (let tokens = filter (\<lambda>w. w \<notin> set stop_words) (tokenize (strip_accents_unicode (lower doc)))
      in tokens @ bigrams tokens)"


section \<open>Floating-point arithmetic\<close>

text \<open>
  The library computes in 64-bit floats. A float is modelled by the real number it
  denotes, and an operation on floats by the exact operation followed by rounding. The
  rounding and the logarithm of the platform are the two fields of an \<open>arithmetic\<close>, a
  parameter of every definition that computes, so that a theorem stated for every
  arithmetic does not depend on how results are rounded. Overflow, subnormal numbers and
  not-a-number are not modelled: the weights and scores stay far from both ends of the
  range.
\<close>

record arithmetic =
  rnd :: "real \<Rightarrow> real"
  flog :: "real \<Rightarrow> real"

definition fadd :: "arithmetic \<Rightarrow> real \<Rightarrow> real \<Rightarrow> real" where
  "fadd ar x y = rnd ar (x + y)"

definition fmul :: "arithmetic \<Rightarrow> real \<Rightarrow> real \<Rightarrow> real" where
  "fmul ar x y = rnd ar (x * y)"

definition fdiv :: "arithmetic \<Rightarrow> real \<Rightarrow> real \<Rightarrow> real" where
  "fdiv ar x y = rnd ar (x / y)"

definition fsqrt :: "arithmetic \<Rightarrow> real \<Rightarrow> real" where
  "fsqrt ar x = rnd ar (sqrt x)"

text \<open>Rounding to the nearest integer, a tie going to the even one.\<close>

definition round_half_even :: "real \<Rightarrow> int" where
  "round_half_even y =
     (let f = \<lfloor>y\<rfloor>; r = y - of_int f
      in if r < 1 / 2 then f
         else if 1 / 2 < r then f + 1
         else if even f then f else f + 1)"

text \<open>
  Rounding to the nearest number with a significand of 53 bits: for
  \<open>2 ^ e \<le> \<bar>x\<bar> < 2 ^ (e + 1)\<close> the numbers of that precision are the multiples of
  \<open>2 ^ (e - 52)\<close>.
\<close>

definition round64 :: "real \<Rightarrow> real" where
  "round64 x =
     (if x = 0 then 0
      else (let e = \<lfloor>log 2 \<bar>x\<bar>\<rfloor>;
                u = 2 powr of_int (e - 52)
            in u * of_int (round_half_even (x / u))))"

text \<open>
  The arithmetic of the platform. Its logarithm is taken as correctly rounded; the one
  value of it that an evaluation below uses is the logarithm of 1, which is 0.
\<close>

definition float64 :: arithmetic where
  "float64 = \<lparr>rnd = round64, flog = (\<lambda>x. round64 (ln x))\<rparr>"

section \<open>The TF-IDF vectorizer and the cosine similarity\<close>

text \<open>
  The library stores the matrices sparsely and skips the zero entries of a row; the
  definitions below run over all entries of a row, in column order, which gives the same
  floats: a product with a zero is zero, and adding zero changes nothing.
\<close>

definition document_frequency :: "string list list \<Rightarrow> string \<Rightarrow> nat" where
  "document_frequency D t = length (filter (\<lambda>d. t \<in> set d) D)"

definition corpus_frequency :: "string list list \<Rightarrow> string \<Rightarrow> nat" where
  "corpus_frequency D t = sum_list (map (\<lambda>d. count_list d t) D)"

definition max_features :: nat where
  "max_features = 5000"

text \<open>
  The vocabulary: every term of the analysed corpus once, in alphabetical order. An empty
  vocabulary is an error of the library (\<open>ValueError\<close>).
\<close>

definition count_vocab :: "analyzer \<Rightarrow> string list \<Rightarrow> error + (string list \<times> string list list)" where
  "count_vocab analyze raw_documents =
     (let D = map analyze raw_documents;
          vocabulary = sort (remdups (concat D))
      in if vocabulary = []
         then Inl (ValueError ''empty vocabulary; perhaps the documents only contain stop words'')
         else Inr (vocabulary, D))"

text \<open>
  With more than \<open>max_features\<close> terms, the terms of highest count over the corpus are
  kept, in vocabulary order. The library breaks ties between equal counts in an
  unspecified way; the model takes the first in vocabulary order.
\<close>

definition limit_features :: "string list list \<Rightarrow> string list \<Rightarrow> string list" where
  "limit_features D vocabulary =
     (if length vocabulary > max_features
      then (let kept = take max_features (sort_key (\<lambda>t. - int (corpus_frequency D t)) vocabulary)
            in filter (\<lambda>t. t \<in> set kept) vocabulary)
      else vocabulary)"

text \<open>
  Smoothed inverse document frequency, \<open>log ((1 + n) / (1 + df)) + 1\<close>, each operation
  rounded.
\<close>

definition idf :: "arithmetic \<Rightarrow> string list list \<Rightarrow> string \<Rightarrow> real" where
  "idf ar D t =
     fadd ar (flog ar (fdiv ar (1 + real (length D)) (1 + real (document_frequency D t)))) 1"

text \<open>The sum of the squares of a row, accumulated from the left.\<close>

definition sum_squares :: "arithmetic \<Rightarrow> real list \<Rightarrow> real" where
  "sum_squares ar v = fold (\<lambda>x acc. fadd ar acc (fmul ar x x)) v 0"

text \<open>
  Euclidean normalisation of a row: every entry is divided by the square root of the sum
  of squares; a row whose sum of squares is zero is left as it is.
\<close>

definition l2_normalize :: "arithmetic \<Rightarrow> real list \<Rightarrow> real list" where
  "l2_normalize ar v =
     (let total = sum_squares ar v
      in if total = 0 then v
         else (let norm = fsqrt ar total in map (\<lambda>x. fdiv ar x norm) v))"

definition tfidf_row ::
  "arithmetic \<Rightarrow> string list list \<Rightarrow> string list \<Rightarrow> string list \<Rightarrow> real list" where
  "tfidf_row ar D vocabulary d =
     l2_normalize ar (map (\<lambda>t. fmul ar (real (count_list d t)) (idf ar D t)) vocabulary)"

definition fit_transform :: "arithmetic \<Rightarrow> analyzer \<Rightarrow> string list \<Rightarrow> error + real list list" where
  "fit_transform ar analyze raw_documents =
     (case count_vocab analyze raw_documents of
        Inl e \<Rightarrow> Inl e
      | Inr (vocabulary, D) \<Rightarrow>
          (let kept = limit_features D vocabulary
           in if kept = []
              then Inl (ValueError ''After pruning, no terms remain. Try a lower min_df or a higher max_df.'')
              else Inr (map (tfidf_row ar D kept) D)))"

text \<open>The dot product of two rows, accumulated from the left.\<close>

definition dot :: "arithmetic \<Rightarrow> real list \<Rightarrow> real list \<Rightarrow> real" where
  "dot ar x y = fold (\<lambda>p acc. fadd ar acc (fmul ar (fst p) (snd p))) (zip x y) 0"

text \<open>
  \<open>cosine_similarity X Y\<close>: both matrices are normalised row by row, and entry \<open>(i, j)\<close>
  is the dot product of row \<open>i\<close> of \<open>X\<close> with row \<open>j\<close> of \<open>Y\<close>.
\<close>

definition cosine_similarity ::
  "arithmetic \<Rightarrow> real list list \<Rightarrow> real list list \<Rightarrow> real list list" where
  "cosine_similarity ar X Y =
     (let X_normalized = map (l2_normalize ar) X;
          Y_normalized = map (l2_normalize ar) Y
      in map (\<lambda>x. map (\<lambda>y. dot ar x y) Y_normalized) X_normalized)"

section \<open>The ranker\<close>

text \<open>
  The slice \<open>xs[:k]\<close>: the first \<open>k\<close> elements for \<open>k \<ge> 0\<close>, all but the last \<open>-k\<close>
  for \<open>k < 0\<close>.
\<close>

definition slice_upto :: "int \<Rightarrow> 'a list \<Rightarrow> 'a list" where
  "slice_upto k xs =
     (if 0 \<le> k then take (nat k) xs else take (nat (int (length xs) + k)) xs)"

text \<open>
  \<open>list.sort(key=lambda x: x[1], reverse=True)\<close>: a stable sort by descending score
  (\<open>reverse=True\<close> keeps equal keys in their original order). A stable sort has one
  result only, so insertion by the negated key gives the list Python's sort gives.
\<close>

definition sort_by_score_desc :: "('a \<times> real) list \<Rightarrow> ('a \<times> real) list" where
  "sort_by_score_desc job_scores = sort_key (\<lambda>x. - snd x) job_scores"

text \<open>The corpus the vectorizer is fitted on: the user text first, then the job texts.\<close>

definition all_texts :: "User \<Rightarrow> Job list \<Rightarrow> string list" where
  "all_texts user jobs =
     (let user_text = combine_user_profile_text user;
          job_texts = map combine_job_text jobs
      in [user_text] @ job_texts)"

text \<open>
  The row of scores the ranker sorts: the first row of the similarity matrix of the user
  vector (row 0 of the TF-IDF matrix) with the job vectors (the other rows).
\<close>

definition similarity_scores ::
  "arithmetic \<Rightarrow> analyzer \<Rightarrow> User \<Rightarrow> Job list \<Rightarrow> error + real list" where
  "similarity_scores ar analyze user jobs =
     (case fit_transform ar analyze (all_texts user jobs) of
        Inl e \<Rightarrow> Inl e
      | Inr tfidf_matrix \<Rightarrow>
          (let user_vector = take 1 tfidf_matrix;
               job_vectors = drop 1 tfidf_matrix
           in case cosine_similarity ar user_vector job_vectors of
                [] \<Rightarrow> Inl IndexError
              | row # _ \<Rightarrow> Inr row))"

definition compute_tfidf_recommendations ::
  "arithmetic \<Rightarrow> analyzer \<Rightarrow> User \<Rightarrow> Job list \<Rightarrow> int \<Rightarrow> error + (Job \<times> real) list" where
  "compute_tfidf_recommendations ar analyze user jobs limit =
     (if jobs = [] then Inr []
      else case similarity_scores ar analyze user jobs of
             Inl e \<Rightarrow> Inl e
           | Inr scores \<Rightarrow>
               (let job_scores = zip jobs scores
                in Inr (slice_upto limit (sort_by_score_desc job_scores))))"

section \<open>The API layer\<close>

text \<open>
  The request schema of \<open>app/utils/schemas.py\<close>:
  \<open>user_id: int = Field(..., gt=0)\<close> and \<open>limit: int = Field(10, ge=1, le=50)\<close>.
  The body of a request carries an integer or nothing for each of the two fields.
\<close>

record RequestBody =
  body_user_id :: "int option"
  body_limit :: "int option"

record RecommendationRequest =
  req_user_id :: int
  req_limit :: int

definition validate_RecommendationRequest :: "RequestBody \<Rightarrow> error + RecommendationRequest" where
  "validate_RecommendationRequest body =
     (case body_user_id body of
        None \<Rightarrow> Inl (ValidationError ''user_id: field required'')
      | Some uid \<Rightarrow>
          if \<not> uid > 0 then Inl (ValidationError ''user_id: input should be greater than 0'')
          else (case body_limit body of
                  None \<Rightarrow> Inr \<lparr>req_user_id = uid, req_limit = 10\<rparr>
                | Some l \<Rightarrow>
                    if \<not> l \<ge> 1 then Inl (ValidationError ''limit: input should be greater than or equal to 1'')
                    else if \<not> l \<le> 50 then Inl (ValidationError ''limit: input should be less than or equal to 50'')
                    else Inr \<lparr>req_user_id = uid, req_limit = l\<rparr>))"

text \<open>
  \<open>JobResponse.model_validate(job)\<close>: the constraints of \<open>JobBase\<close> and \<open>JobResponse\<close>
  on the attributes of the job; the validated response carries the job's attributes.
\<close>

definition str_between :: "nat \<Rightarrow> nat option \<Rightarrow> string option \<Rightarrow> bool" where
  "str_between lo hi x =
     (case x of None \<Rightarrow> False
      | Some s \<Rightarrow> lo \<le> length s \<and> (case hi of None \<Rightarrow> True | Some h \<Rightarrow> length s \<le> h))"

definition JobResponse_model_validate :: "Job \<Rightarrow> error + Job" where
  "JobResponse_model_validate job =
     (if str_between 1 (Some 255) (title job)
         \<and> str_between 1 (Some 255) (company job)
         \<and> str_between 1 None (description job)
         \<and> str_between 1 (Some 255) (location job)
         \<and> (case salary_min job of None \<Rightarrow> True | Some x \<Rightarrow> 0 \<le> x)
         \<and> (case salary_max job of None \<Rightarrow> True | Some x \<Rightarrow> 0 \<le> x)
         \<and> (case application_url job of None \<Rightarrow> True | Some s \<Rightarrow> length s \<le> 500)
         \<and> created_at job \<noteq> None
      then Inr job
      else Inl (ValidationError ''JobResponse''))"

record JobRecommendation =
  job :: Job
  match_score :: real

definition make_JobRecommendation :: "Job \<times> real \<Rightarrow> error + JobRecommendation" where
  "make_JobRecommendation p =
     (case JobResponse_model_validate (fst p) of
        Inl e \<Rightarrow> Inl e
      | Inr j \<Rightarrow>
          if 0 \<le> snd p \<and> snd p \<le> 1 then Inr \<lparr>job = j, match_score = snd p\<rparr>
          else Inl (ValidationError ''match_score''))"

text \<open>A list comprehension whose element expression can raise: the first error wins.\<close>

fun comprehension :: "('a \<Rightarrow> error + 'b) \<Rightarrow> 'a list \<Rightarrow> error + 'b list" where
  "comprehension f [] = Inr []"
| "comprehension f (x # xs) =
     (case f x of
        Inl e \<Rightarrow> Inl e
      | Inr y \<Rightarrow> (case comprehension f xs of Inl e \<Rightarrow> Inl e | Inr ys \<Rightarrow> Inr (y # ys)))"

record RecommendationResponse =
  resp_user_id :: int
  recommendations :: "JobRecommendation list"
  total_found :: int

text \<open>The store behind the session: the rows of the two tables, in query order.\<close>

record database =
  db_users :: "User list"
  db_jobs :: "Job list"

text \<open>
  \<open>recommend_jobs\<close>, with the ranker it calls as a parameter, so that a theorem can say
  that a result does not depend on the ranker.
\<close>

definition recommend_jobs_with ::
  "(User \<Rightarrow> Job list \<Rightarrow> int \<Rightarrow> error + (Job \<times> real) list) \<Rightarrow>
   RecommendationRequest \<Rightarrow> database \<Rightarrow> error + RecommendationResponse" where
  "recommend_jobs_with ranker request db =
     (case find (\<lambda>u. user_id u = req_user_id request) (db_users db) of
        None \<Rightarrow> Inl (HTTPException 404 ''User not found'')
      | Some user \<Rightarrow>
          (let all_jobs = db_jobs db
           in if all_jobs = []
              then Inr \<lparr>resp_user_id = req_user_id request, recommendations = [], total_found = 0\<rparr>
              else (case ranker user all_jobs (req_limit request) of
                      Inl e \<Rightarrow> Inl e
                    | Inr job_scores \<Rightarrow>
                        (case comprehension make_JobRecommendation job_scores of
                           Inl e \<Rightarrow> Inl e
                         | Inr recs \<Rightarrow>
                             Inr \<lparr>resp_user_id = req_user_id request,
                                  recommendations = recs,
                                  total_found = int (length recs)\<rparr>))))"

definition recommend_jobs ::
  "arithmetic \<Rightarrow> analyzer \<Rightarrow> RecommendationRequest \<Rightarrow> database \<Rightarrow>
   error + RecommendationResponse" where
  "recommend_jobs ar analyze request db =
     recommend_jobs_with (compute_tfidf_recommendations ar analyze) request db"

text \<open>
  The route \<open>POST /ml/recommend\<close>: the framework validates the body against the request
  schema, then calls the handler.
\<close>

definition post_recommend_with ::
  "(User \<Rightarrow> Job list \<Rightarrow> int \<Rightarrow> error + (Job \<times> real) list) \<Rightarrow>
   RequestBody \<Rightarrow> database \<Rightarrow> error + RecommendationResponse" where
  "post_recommend_with ranker body db =
     (case validate_RecommendationRequest body of
        Inl e \<Rightarrow> Inl e
      | Inr request \<Rightarrow> recommend_jobs_with ranker request db)"

section \<open>Example data\<close>

text \<open>
  Concrete users, jobs and stores, on which the theorems below are instantiated. The stop
  words are a few entries of the English table.
\<close>

definition some_stop_words :: "string list" where
  "some_stop_words = [''a'', ''and'', ''the'', ''with'']"

definition ann :: User where
  "ann = \<lparr>user_id = 1, email = ''ann@example.org'', full_name = Some ''Ann Lee'',
          has_disability = True, disability_type = Some ''low vision'',
          accessibility_needs = Some ''screen reader'',
          user_created_at = Some 0, user_updated_at = None\<rparr>"

definition ben :: User where
  "ben = \<lparr>user_id = 2, email = ''ben@example.org'', full_name = Some ''Ben'',
          has_disability = False, disability_type = None,
          accessibility_needs = None,
          user_created_at = Some 0, user_updated_at = None\<rparr>"

definition blank_user :: User where
  "blank_user = \<lparr>user_id = 3, email = ''blank@example.org'', full_name = Some [],
          has_disability = False, disability_type = None,
          accessibility_needs = None,
          user_created_at = Some 0, user_updated_at = None\<rparr>"

definition analyst_job :: Job where
  "analyst_job = \<lparr>job_id = 1, title = Some ''Data Analyst'', company = Some ''Acme'',
          description = Some ''Reports with a screen reader'', skills = Some ''Python SQL'',
          location = Some ''Remote'', is_remote = True, is_inclusive = True,
          accessibility_features = None, salary_min = None, salary_max = None,
          application_url = None, created_at = Some 0, updated_at = None\<rparr>"

definition chef_job :: Job where
  "chef_job = \<lparr>job_id = 2, title = Some ''Chef'', company = Some ''Bistro'',
          description = Some ''Kitchen and grill'', skills = None,
          location = Some ''Lyon'', is_remote = False, is_inclusive = False,
          accessibility_features = None, salary_min = None, salary_max = None,
          application_url = None, created_at = Some 0, updated_at = None\<rparr>"

definition blank_job :: Job where
  "blank_job = \<lparr>job_id = 3, title = Some [], company = Some ''Acme'',
          description = Some [], skills = None,
          location = Some ''Remote'', is_remote = False, is_inclusive = False,
          accessibility_features = None, salary_min = None, salary_max = None,
          application_url = None, created_at = Some 0, updated_at = None\<rparr>"

definition initial_user :: User where
  "initial_user = \<lparr>user_id = 4, email = ''j@example.org'', full_name = Some ''J'',
          has_disability = False, disability_type = None,
          accessibility_needs = None,
          user_created_at = Some 0, user_updated_at = None\<rparr>"

definition terse_job :: Job where
  "terse_job = \<lparr>job_id = 4, title = Some ''X'', company = Some ''Acme'',
          description = Some ''Y'', skills = None,
          location = Some ''Remote'', is_remote = False, is_inclusive = False,
          accessibility_features = None, salary_min = None, salary_max = None,
          application_url = None, created_at = Some 0, updated_at = None\<rparr>"

definition terse_store :: database where
  "terse_store = \<lparr>db_users = [initial_user], db_jobs = [terse_job]\<rparr>"

definition store :: database where
  "store = \<lparr>db_users = [ann, ben], db_jobs = [analyst_job, chef_job]\<rparr>"

definition store_without_jobs :: database where
  "store_without_jobs = \<lparr>db_users = [ann, ben], db_jobs = []\<rparr>"

definition twin_user :: User where
  "twin_user = \<lparr>user_id = 5, email = ''twin@example.org'', full_name = Some ''Python Developer'',
          has_disability = False, disability_type = None,
          accessibility_needs = None,
          user_created_at = Some 0, user_updated_at = None\<rparr>"

definition twin_job :: Job where
  "twin_job = \<lparr>job_id = 5, title = Some ''Python'', company = Some ''Acme'',
          description = Some ''Developer'', skills = None,
          location = Some ''Remote'', is_remote = True, is_inclusive = False,
          accessibility_features = None, salary_min = None, salary_max = None,
          application_url = None, created_at = Some 0, updated_at = None\<rparr>"

definition twin_store :: database where
  "twin_store = \<lparr>db_users = [twin_user], db_jobs = [twin_job]\<rparr>"

section \<open>The vectorizer: when it fails, and the shape of its result\<close>

lemma sort_key_eq_Nil: "sort_key f xs = [] \<longleftrightarrow> xs = []"
  by (metis length_sort length_0_conv)

lemma count_vocab_empty:
  assumes "concat (map analyze docs) = []"
  shows "count_vocab analyze docs =
    Inl (ValueError ''empty vocabulary; perhaps the documents only contain stop words'')"
  unfolding count_vocab_def Let_def assms by simp

lemma count_vocab_nonempty:
  assumes "concat (map analyze docs) \<noteq> []"
  shows "count_vocab analyze docs =
    Inr (sort (remdups (concat (map analyze docs))), map analyze docs)"
proof -
  have "sort (remdups (concat (map analyze docs))) \<noteq> []"
    using assms by (simp only: sort_key_eq_Nil remdups_eq_nil_iff not_False_eq_True)
  then show ?thesis unfolding count_vocab_def Let_def by (simp only: if_False)
qed

lemma limit_features_nonempty:
  assumes "vocabulary \<noteq> []"
  shows "limit_features D vocabulary \<noteq> []"
proof (cases "length vocabulary > max_features")
  case False
  then show ?thesis using assms by (simp add: limit_features_def)
next
  case True
  define srt where "srt = sort_key (\<lambda>t. - int (corpus_frequency D t)) vocabulary"
  have ne: "srt \<noteq> []" using assms by (simp add: srt_def sort_key_eq_Nil)
  then obtain t ts where s: "srt = t # ts" by (cases srt) auto
  have "t \<in> set (take max_features srt)" by (simp add: s max_features_def)
  moreover have "t \<in> set vocabulary"
    using s srt_def by (metis list.set_intros(1) set_sort)
  ultimately have "t \<in> set (filter (\<lambda>t. t \<in> set (take max_features srt)) vocabulary)"
    by simp
  then have "filter (\<lambda>t. t \<in> set (take max_features srt)) vocabulary \<noteq> []"
    by force
  then show ?thesis using True
    by (simp add: limit_features_def Let_def srt_def)
qed

lemma fit_transform_empty:
  assumes "concat (map analyze docs) = []"
  shows "fit_transform ar analyze docs =
    Inl (ValueError ''empty vocabulary; perhaps the documents only contain stop words'')"
  unfolding fit_transform_def count_vocab_empty[OF assms] by simp

lemma fit_transform_nonempty:
  assumes "concat (map analyze docs) \<noteq> []"
  shows "\<exists>kept. fit_transform ar analyze docs =
    Inr (map (tfidf_row ar (map analyze docs) kept) (map analyze docs))"
proof -
  have "sort (remdups (concat (map analyze docs))) \<noteq> []"
    using assms by (simp only: sort_key_eq_Nil remdups_eq_nil_iff not_False_eq_True)
  then have ne: "limit_features (map analyze docs) (sort (remdups (concat (map analyze docs)))) \<noteq> []"
    by (rule limit_features_nonempty)
  show ?thesis
    unfolding fit_transform_def count_vocab_nonempty[OF assms]
    using ne by (simp only: sum.case prod.case Let_def if_False) blast
qed

lemma fit_transform_rows:
  assumes "fit_transform ar analyze docs = Inr M"
  shows "length M = length docs"
proof -
  have ne: "concat (map analyze docs) \<noteq> []"
  proof
    assume "concat (map analyze docs) = []"
    from fit_transform_empty[OF this, of ar] assms show False by simp
  qed
  from fit_transform_nonempty[OF ne, of ar] assms obtain kept
    where M: "M = map (tfidf_row ar (map analyze docs) kept) (map analyze docs)" by auto
  show "length M = length docs" by (simp add: M)
qed

section \<open>The empty job list\<close>

text \<open>
  Claim C6. For every user and every limit, the ranker applied to an empty job list
  returns the empty sequence, without error; the guard comes before any text is composed
  or analysed, so the result is the same for every analyzer, also for one on which the
  vectorizer would fail.
\<close>

theorem C6_empty_jobs:
  "compute_tfidf_recommendations ar analyze user [] limit = Inr []"
  by (simp add: compute_tfidf_recommendations_def)

section \<open>The scores: one for each job\<close>

lemma cosine_similarity_single:
  "cosine_similarity ar [x] Y = [map (\<lambda>y. dot ar (l2_normalize ar x) (l2_normalize ar y)) Y]"
  by (simp add: cosine_similarity_def o_def)

lemma all_texts_length: "length (all_texts user jobs) = Suc (length jobs)"
  by (simp add: all_texts_def)

lemma similarity_scores_Inr:
  assumes "similarity_scores ar analyze user jobs = Inr scores"
  shows "length scores = length jobs"
proof -
  from assms obtain M where M: "fit_transform ar analyze (all_texts user jobs) = Inr M"
    by (auto simp: similarity_scores_def split: sum.splits)
  have len: "length M = Suc (length jobs)"
    using fit_transform_rows[OF M] by (simp add: all_texts_length)
  then obtain u js where Mc: "M = u # js" by (cases M) auto
  have sc: "scores = map (\<lambda>y. dot ar (l2_normalize ar u) (l2_normalize ar y)) js"
    using assms by (simp add: similarity_scores_def M Mc cosine_similarity_single)
  show "length scores = length jobs" using len by (simp add: sc Mc)
qed

lemma similarity_scores_empty_vocabulary:
  assumes "concat (map analyze (all_texts user jobs)) = []"
  shows "similarity_scores ar analyze user jobs =
    Inl (ValueError ''empty vocabulary; perhaps the documents only contain stop words'')"
  unfolding similarity_scores_def fit_transform_empty[OF assms] by simp

lemma similarity_scores_defined:
  assumes "concat (map analyze (all_texts user jobs)) \<noteq> []"
  shows "\<exists>scores. similarity_scores ar analyze user jobs = Inr scores"
proof -
  from fit_transform_nonempty[OF assms, of ar] obtain M
    where M: "fit_transform ar analyze (all_texts user jobs) = Inr M" by blast
  have "length M = Suc (length jobs)"
    using fit_transform_rows[OF M] by (simp add: all_texts_length)
  then obtain u js where Mc: "M = u # js" by (cases M) auto
  show ?thesis by (simp add: similarity_scores_def M Mc cosine_similarity_single)
qed

section \<open>Sorting by score and slicing\<close>

lemma length_slice_upto:
  "length (slice_upto k xs) =
     (if 0 \<le> k then min (nat k) (length xs) else nat (int (length xs) + k))"
  by (auto simp: slice_upto_def)

lemma slice_upto_map: "slice_upto k (map f xs) = map f (slice_upto k xs)"
  by (simp add: slice_upto_def take_map)

lemma slice_upto_is_take: "\<exists>m. slice_upto k xs = take m xs"
  by (auto simp: slice_upto_def)

lemma insort_key_map_comm:
  "insort_key f (g x) (map g xs) = map g (insort_key (\<lambda>a. f (g a)) x xs)"
  by (induction xs) simp_all

lemma sort_key_map_comm: "sort_key f (map g xs) = map g (sort_key (\<lambda>a. f (g a)) xs)"
  by (induction xs) (simp_all add: insort_key_map_comm)

lemma zip_as_map_upt:
  assumes "length xs = length ys"
  shows "zip xs ys = map (\<lambda>i. (xs ! i, ys ! i)) [0..<length xs]"
  using assms by (intro nth_equalityI) simp_all

lemma filtered_sorted_nth:
  assumes "sorted_wrt P (filter Q xs)" and "a < b" and "b < length xs"
    and "Q (xs ! a)" and "Q (xs ! b)"
  shows "P (xs ! a) (xs ! b)"
proof -
  have split: "xs = take b xs @ xs ! b # drop (Suc b) xs"
    using assms(3) by (rule id_take_nth_drop)
  have "xs ! a \<in> set (take b xs)"
    using assms(2,3) by (metis in_set_conv_nth length_take min.absorb2 nth_take less_imp_le_nat)
  then have l: "xs ! a \<in> set (filter Q (take b xs))" using assms(4) by simp
  have "sorted_wrt P (filter Q (take b xs) @ filter Q (xs ! b # drop (Suc b) xs))"
    using assms(1) by (subst (asm) split) simp
  then have "\<forall>x\<in>set (filter Q (take b xs)). \<forall>y\<in>set (filter Q (xs ! b # drop (Suc b) xs)). P x y"
    by (simp only: sorted_wrt_append) blast
  moreover have "xs ! b \<in> set (filter Q (xs ! b # drop (Suc b) xs))" using assms(5) by simp
  ultimately show ?thesis using l by blast
qed

text \<open>The positions of a list of scores in ranking order.\<close>

lemma ranked_positions:
  fixes scores :: "real list"
  defines "idx \<equiv> sort_key (\<lambda>i. - scores ! i) [0..<length scores]"
  shows "distinct idx" and "set idx = {0..<length scores}" and "length idx = length scores"
    and "\<And>a b. a < b \<Longrightarrow> b < length idx \<Longrightarrow> scores ! (idx ! b) \<le> scores ! (idx ! a)"
    and "\<And>a b. a < b \<Longrightarrow> b < length idx \<Longrightarrow> scores ! (idx ! a) = scores ! (idx ! b)
           \<Longrightarrow> idx ! a < idx ! b"
proof -
  show "distinct idx" by (simp add: idx_def)
  show "set idx = {0..<length scores}" by (simp add: idx_def)
  show "length idx = length scores" by (simp add: idx_def)
  have srt: "sorted (map (\<lambda>i. - scores ! i) idx)"
    unfolding idx_def by (rule sorted_sort_key)
  show "scores ! (idx ! b) \<le> scores ! (idx ! a)" if "a < b" "b < length idx" for a b
  proof -
    have "map (\<lambda>i. - scores ! i) idx ! a \<le> map (\<lambda>i. - scores ! i) idx ! b"
      using srt that by (simp add: sorted_iff_nth_mono)
    then show ?thesis using that by simp
  qed
  show "idx ! a < idx ! b"
    if "a < b" "b < length idx" "scores ! (idx ! a) = scores ! (idx ! b)" for a b
  proof -
    define k where "k = - scores ! (idx ! b)"
    have "filter (\<lambda>i. - scores ! i = k) idx = filter (\<lambda>i. - scores ! i = k) [0..<length scores]"
      unfolding idx_def by (rule sort_key_stable)
    moreover have "sorted_wrt (<) (filter (\<lambda>i. - scores ! i = k) [0..<length scores])"
      by (rule sorted_wrt_filter) simp
    ultimately have "sorted_wrt (<) (filter (\<lambda>i. - scores ! i = k) idx)" by simp
    then show ?thesis
      by (rule filtered_sorted_nth) (use that in \<open>simp_all add: k_def\<close>)
  qed
qed

lemma sort_by_score_desc_zip:
  assumes "length jobs = length scores"
  shows "sort_by_score_desc (zip jobs scores) =
         map (\<lambda>i. (jobs ! i, scores ! i)) (sort_key (\<lambda>i. - scores ! i) [0..<length scores])"
  unfolding sort_by_score_desc_def zip_as_map_upt[OF assms] assms
  by (simp add: sort_key_map_comm)

section \<open>The ranker: when it returns, and what\<close>

lemma compute_Inr_unfold:
  assumes "jobs \<noteq> []" and "compute_tfidf_recommendations ar analyze user jobs limit = Inr res"
  shows "\<exists>scores. similarity_scores ar analyze user jobs = Inr scores \<and>
           res = slice_upto limit (sort_by_score_desc (zip jobs scores))"
  using assms by (auto simp: compute_tfidf_recommendations_def split: sum.splits)

lemma compute_defined:
  assumes "jobs \<noteq> []" and "concat (map analyze (all_texts user jobs)) \<noteq> []"
  shows "\<exists>res. compute_tfidf_recommendations ar analyze user jobs limit = Inr res"
proof -
  from similarity_scores_defined[OF assms(2)] obtain scores
    where "similarity_scores ar analyze user jobs = Inr scores" by blast
  then show ?thesis using assms(1) by (simp add: compute_tfidf_recommendations_def)
qed

lemma compute_empty_vocabulary:
  assumes "jobs \<noteq> []" and "concat (map analyze (all_texts user jobs)) = []"
  shows "compute_tfidf_recommendations ar analyze user jobs limit =
    Inl (ValueError ''empty vocabulary; perhaps the documents only contain stop words'')"
  using assms(1) similarity_scores_empty_vocabulary[OF assms(2)]
  by (simp add: compute_tfidf_recommendations_def)

lemma compute_length:
  assumes "jobs \<noteq> []" and "compute_tfidf_recommendations ar analyze user jobs limit = Inr res"
  shows "length res =
     (if 0 \<le> limit then min (nat limit) (length jobs) else nat (int (length jobs) + limit))"
proof -
  from compute_Inr_unfold[OF assms] obtain scores
    where sc: "similarity_scores ar analyze user jobs = Inr scores"
      and res: "res = slice_upto limit (sort_by_score_desc (zip jobs scores))" by blast
  have "length scores = length jobs" by (rule similarity_scores_Inr[OF sc])
  then show ?thesis
    by (simp add: res length_slice_upto sort_by_score_desc_def)
qed

text \<open>
  Every result of the ranker lists input positions: there are one score per input job and
  a list of distinct positions such that the result is, position by position, the job
  there with its score; scores descend along the result, and between equal scores the
  positions ascend.
\<close>

lemma compute_positions:
  assumes "compute_tfidf_recommendations ar analyze user jobs limit = Inr res"
  shows "\<exists>scores ps. length scores = length jobs
           \<and> res = map (\<lambda>i. (jobs ! i, scores ! i)) ps
           \<and> distinct ps \<and> (\<forall>i\<in>set ps. i < length jobs)
           \<and> (\<forall>a b. a < b \<longrightarrow> b < length ps \<longrightarrow> scores ! (ps ! b) \<le> scores ! (ps ! a))
           \<and> (\<forall>a b. a < b \<longrightarrow> b < length ps \<longrightarrow> scores ! (ps ! a) = scores ! (ps ! b)
                  \<longrightarrow> ps ! a < ps ! b)"
proof (cases "jobs = []")
  case True
  then have "res = []" using assms by (simp add: compute_tfidf_recommendations_def)
  then show ?thesis using True
    by (intro exI[of _ "[]"]) simp
next
  case False
  from compute_Inr_unfold[OF False assms] obtain scores
    where sc: "similarity_scores ar analyze user jobs = Inr scores"
      and res: "res = slice_upto limit (sort_by_score_desc (zip jobs scores))" by blast
  have len: "length jobs = length scores" using similarity_scores_Inr[OF sc] by simp
  define idx where "idx = sort_key (\<lambda>i. - scores ! i) [0..<length scores]"
  define ps where "ps = slice_upto limit idx"
  obtain m where m: "ps = take m idx" unfolding ps_def using slice_upto_is_take by blast
  have r: "res = map (\<lambda>i. (jobs ! i, scores ! i)) ps"
    unfolding res sort_by_score_desc_zip[OF len] ps_def idx_def by (rule slice_upto_map)
  have d: "distinct ps" unfolding m idx_def using ranked_positions(1)[of scores] by simp
  have s: "\<forall>i\<in>set ps. i < length jobs"
  proof
    fix i assume "i \<in> set ps"
    then have "i \<in> set idx" unfolding m by (rule in_set_takeD)
    then show "i < length jobs" using ranked_positions(2)[of scores] len by (simp add: idx_def)
  qed
  have nth: "ps ! a = idx ! a" and lt: "a < length idx" if "a < length ps" for a
    using that unfolding m by simp_all
  have o: "scores ! (ps ! b) \<le> scores ! (ps ! a)" if "a < b" "b < length ps" for a b
  proof -
    have "scores ! (idx ! b) \<le> scores ! (idx ! a)"
      unfolding idx_def by (rule ranked_positions(4)) (use that lt in \<open>simp_all add: idx_def\<close>)
    then show ?thesis using that nth by simp
  qed
  have t: "ps ! a < ps ! b"
    if "a < b" "b < length ps" "scores ! (ps ! a) = scores ! (ps ! b)" for a b
  proof -
    have "idx ! a < idx ! b"
      unfolding idx_def
      by (rule ranked_positions(5)) (use that lt nth in \<open>simp_all add: idx_def\<close>)
    then show ?thesis using that nth by simp
  qed
  show ?thesis
    using len r d s o t by (intro exI[of _ scores] exI[of _ ps]) simp
qed

section \<open>Length, order and selection of the result\<close>

lemma example_vocabulary:
  "concat (map (build_analyzer some_stop_words) (all_texts ann [analyst_job, chef_job])) \<noteq> []"
  by code_simp

lemma example_defined:
  "\<exists>res. compute_tfidf_recommendations ar (build_analyzer some_stop_words) ann
            [analyst_job, chef_job] limit = Inr res"
  by (rule compute_defined[OF _ example_vocabulary]) simp

text \<open>
  Whenever the corpus (user text and job texts) yields at least one term, the ranker
  returns a result, and whenever it returns a result for a non-empty job list and a
  positive limit, the result has as many entries as the limit allows.
\<close>

lemma result_length:
  assumes "jobs \<noteq> []" and "0 < limit"
  shows "(concat (map analyze (all_texts user jobs)) \<noteq> [] \<longrightarrow>
            (\<exists>res. compute_tfidf_recommendations ar analyze user jobs limit = Inr res))
       \<and> (\<forall>res. compute_tfidf_recommendations ar analyze user jobs limit = Inr res \<longrightarrow>
            length res = min (nat limit) (length jobs))"
proof (intro conjI impI allI)
  assume "concat (map analyze (all_texts user jobs)) \<noteq> []"
  with assms(1) show "\<exists>res. compute_tfidf_recommendations ar analyze user jobs limit = Inr res"
    by (rule compute_defined)
next
  fix res
  assume "compute_tfidf_recommendations ar analyze user jobs limit = Inr res"
  from compute_length[OF assms(1) this] assms(2)
  show "length res = min (nat limit) (length jobs)" by simp
qed

lemma result_length_example:
  "\<exists>res. compute_tfidf_recommendations float64 (build_analyzer some_stop_words) ann
            [analyst_job, chef_job] 1 = Inr res \<and> length res = 1"
proof -
  have "[analyst_job, chef_job] \<noteq> []" and "(0::int) < 1" by simp_all
  from result_length[OF this, of "build_analyzer some_stop_words" ann float64] example_vocabulary
  show ?thesis by auto
qed

text \<open>
  Claim C2. The sequence returned by the ranker is sorted by score in descending order,
  and returned jobs with equal scores keep the relative order they have in the input job
  list: the result lists input positions with their scores, and between two entries of
  equal score the earlier entry has the smaller input position.
\<close>

theorem C2_sorted_stable:
  assumes "compute_tfidf_recommendations ar analyze user jobs limit = Inr res"
  shows "sorted_wrt (\<lambda>p q. snd q \<le> snd p) res
       \<and> (\<exists>scores ps. length scores = length jobs
             \<and> res = map (\<lambda>i. (jobs ! i, scores ! i)) ps
             \<and> (\<forall>i\<in>set ps. i < length jobs)
             \<and> (\<forall>a b. a < b \<longrightarrow> b < length ps \<longrightarrow> scores ! (ps ! a) = scores ! (ps ! b)
                    \<longrightarrow> ps ! a < ps ! b))"
proof -
  from compute_positions[OF assms] obtain scores ps where
    len: "length scores = length jobs"
    and r: "res = map (\<lambda>i. (jobs ! i, scores ! i)) ps"
    and s: "\<forall>i\<in>set ps. i < length jobs"
    and o: "\<forall>a b. a < b \<longrightarrow> b < length ps \<longrightarrow> scores ! (ps ! b) \<le> scores ! (ps ! a)"
    and t: "\<forall>a b. a < b \<longrightarrow> b < length ps \<longrightarrow> scores ! (ps ! a) = scores ! (ps ! b)
                  \<longrightarrow> ps ! a < ps ! b"
    by blast
  have "sorted_wrt (\<lambda>p q. snd q \<le> snd p) res"
    unfolding sorted_wrt_iff_nth_less using o by (simp add: r)
  then show ?thesis using len r s t by blast
qed

theorem C2_sorted_stable_witness:
  "\<exists>res. compute_tfidf_recommendations float64 (build_analyzer some_stop_words) ann
            [analyst_job, chef_job] 2 = Inr res
         \<and> length res = 2 \<and> snd (res ! 1) \<le> snd (res ! 0)"
proof -
  from example_defined obtain res where
    r: "compute_tfidf_recommendations float64 (build_analyzer some_stop_words) ann
          [analyst_job, chef_job] 2 = Inr res" by blast
  have "length res = 2" using compute_length[OF _ r] by simp
  moreover have "sorted_wrt (\<lambda>p q. snd q \<le> snd p) res"
    using C2_sorted_stable[OF r] by blast
  ultimately have "snd (res ! 1) \<le> snd (res ! 0)"
    by (simp add: sorted_wrt_iff_nth_less)
  with r \<open>length res = 2\<close> show ?thesis by blast
qed

text \<open>
  Claim C9. Each pair returned by the ranker holds a job of the input list, and no input
  job occurs more than once in the result: the returned jobs are the input jobs at a list
  of distinct positions, so they are all different when the input jobs are.
\<close>

theorem C9_selection_without_duplicates:
  assumes "compute_tfidf_recommendations ar analyze user jobs limit = Inr res"
  shows "fst ` set res \<subseteq> set jobs
       \<and> (\<exists>ps. distinct ps \<and> (\<forall>i\<in>set ps. i < length jobs) \<and> map fst res = map ((!) jobs) ps)
       \<and> (distinct jobs \<longrightarrow> distinct (map fst res))"
proof -
  from compute_positions[OF assms] obtain scores ps where
    r: "res = map (\<lambda>i. (jobs ! i, scores ! i)) ps"
    and d: "distinct ps"
    and s: "\<forall>i\<in>set ps. i < length jobs"
    by blast
  have m: "map fst res = map ((!) jobs) ps" by (simp add: r o_def)
  have "fst ` set res \<subseteq> set jobs" using s by (auto simp: r)
  moreover have "distinct (map fst res)" if "distinct jobs"
    unfolding m using d s that by (simp add: distinct_map inj_on_nth)
  ultimately show ?thesis using d s m by blast
qed

theorem C9_selection_without_duplicates_witness:
  "\<exists>res. compute_tfidf_recommendations float64 (build_analyzer some_stop_words) ann
            [analyst_job, chef_job] 5 = Inr res
         \<and> length res = 2 \<and> fst ` set res \<subseteq> {analyst_job, chef_job} \<and> distinct (map fst res)"
proof -
  from example_defined obtain res where
    r: "compute_tfidf_recommendations float64 (build_analyzer some_stop_words) ann
          [analyst_job, chef_job] 5 = Inr res" by blast
  have l: "length res = 2" using compute_length[OF _ r] by simp
  have dj: "distinct [analyst_job, chef_job]" by (simp add: analyst_job_def chef_job_def)
  from C9_selection_without_duplicates[OF r] dj
  have "fst ` set res \<subseteq> {analyst_job, chef_job}" and "distinct (map fst res)" by auto
  with r l show ?thesis by blast
qed

section \<open>Degenerate texts and limits\<close>

lemma blank_corpus_no_term:
  "concat (map (build_analyzer stop_words) (all_texts blank_user [blank_job])) = []"
  by (simp add: all_texts_def combine_user_profile_text_def combine_job_text_def
      blank_user_def blank_job_def or_empty_def strip_def isspace_def build_analyzer_def
      lower_def strip_accents_unicode_def tokenize_def)

text \<open>
  Claim C4, at a failing input. The composed text of \<open>blank_user\<close> and of \<open>blank_job\<close>
  is empty; the claim says that the ranker returns one pair with score 0; the vectorizer
  finds no term and raises, for every stop-word table, every limit and every arithmetic,
  and the ranker does not catch the error.
\<close>

theorem C4_empty_texts_raise:
  "combine_user_profile_text blank_user = []
   \<and> combine_job_text blank_job = []
   \<and> compute_tfidf_recommendations ar (build_analyzer stop_words) blank_user [blank_job] limit =
       Inl (ValueError ''empty vocabulary; perhaps the documents only contain stop words'')"
proof -
  have "combine_user_profile_text blank_user = []"
    by (simp add: combine_user_profile_text_def blank_user_def or_empty_def strip_def isspace_def)
  moreover have "combine_job_text blank_job = []"
    by (simp add: combine_job_text_def blank_job_def or_empty_def strip_def isspace_def)
  moreover have "compute_tfidf_recommendations ar (build_analyzer stop_words) blank_user [blank_job] limit =
       Inl (ValueError ''empty vocabulary; perhaps the documents only contain stop words'')"
    by (rule compute_empty_vocabulary[OF _ blank_corpus_no_term]) simp
  ultimately show ?thesis by simp
qed

lemma terse_corpus_no_term:
  "concat (map (build_analyzer stop_words) (all_texts initial_user [terse_job])) = []"
  by (simp add: all_texts_def combine_user_profile_text_def combine_job_text_def
      initial_user_def terse_job_def or_empty_def strip_def isspace_def build_analyzer_def
      lower_def lower_char_def strip_accents_unicode_def tokenize_def is_word_char_def)

text \<open>
  Claim C1, at two failing inputs. The job list has one job and the limit is 1, so the
  claim says that the result has one entry. With \<open>blank_user\<close> and \<open>blank_job\<close>, whose
  texts are empty, and with \<open>initial_user\<close> and \<open>terse_job\<close>, whose texts are single
  characters (rows that satisfy the schemas of the API), the vectorizer finds no term and
  raises, and the ranker returns no result at all.
\<close>

theorem C1_no_result_without_terms:
  "length [blank_job] = 1
   \<and> compute_tfidf_recommendations ar (build_analyzer stop_words) blank_user [blank_job] 1 =
       Inl (ValueError ''empty vocabulary; perhaps the documents only contain stop words'')
   \<and> length [terse_job] = 1
   \<and> compute_tfidf_recommendations ar (build_analyzer stop_words) initial_user [terse_job] 1 =
       Inl (ValueError ''empty vocabulary; perhaps the documents only contain stop words'')"
proof -
  have "compute_tfidf_recommendations ar (build_analyzer stop_words) blank_user [blank_job] 1 =
       Inl (ValueError ''empty vocabulary; perhaps the documents only contain stop words'')"
    by (rule compute_empty_vocabulary[OF _ blank_corpus_no_term]) simp
  moreover have "compute_tfidf_recommendations ar (build_analyzer stop_words) initial_user [terse_job] 1 =
       Inl (ValueError ''empty vocabulary; perhaps the documents only contain stop words'')"
    by (rule compute_empty_vocabulary[OF _ terse_corpus_no_term]) simp
  ultimately show ?thesis by simp
qed

text \<open>
  Claim C5, as stated, fails: with a non-empty job list and the limit 0 the ranker returns
  the empty list, and raises nothing.
\<close>

theorem C5_limit_zero_counterexample:
  "compute_tfidf_recommendations float64 (build_analyzer some_stop_words) ann
     [analyst_job, chef_job] 0 = Inr []"
proof -
  from example_defined obtain res where
    r: "compute_tfidf_recommendations float64 (build_analyzer some_stop_words) ann
          [analyst_job, chef_job] 0 = Inr res" by blast
  have "length res = 0" using compute_length[OF _ r] by simp
  with r show ?thesis by simp
qed

lemma compute_as_slice:
  assumes "jobs \<noteq> []" and "similarity_scores ar analyze user jobs = Inr scores"
  shows "compute_tfidf_recommendations ar analyze user jobs limit =
           Inr (slice_upto limit (sort_by_score_desc (zip jobs scores)))"
  using assms by (simp add: compute_tfidf_recommendations_def)

text \<open>
  Claim C5, amended. The ranker does not check the limit and signals no error for it. For
  the empty job list it returns the empty sequence for every limit. For a non-empty job
  list whose corpus yields at least one term it returns a result for every limit. With
  the full ranking being its result for the limit equal to the number of jobs, which
  holds every job and is sorted by descending score, the result is the first \<open>limit\<close>
  entries of the full ranking when the limit is not negative (none for the limit 0, all
  of them when the limit exceeds the number of jobs), and the full ranking without its
  last \<open>-limit\<close> entries when the limit is negative.
\<close>

theorem C5_any_limit_returns:
  "(jobs = [] \<longrightarrow> compute_tfidf_recommendations ar analyze user jobs limit = Inr [])
   \<and> (jobs \<noteq> [] \<and> concat (map analyze (all_texts user jobs)) \<noteq> [] \<longrightarrow>
        (\<exists>ranking.
           compute_tfidf_recommendations ar analyze user jobs (int (length jobs)) = Inr ranking
           \<and> length ranking = length jobs
           \<and> sorted_wrt (\<lambda>p q. snd q \<le> snd p) ranking
           \<and> compute_tfidf_recommendations ar analyze user jobs limit =
               Inr (if 0 \<le> limit then take (nat limit) ranking
                    else take (length jobs - nat (- limit)) ranking)))"
proof (intro conjI impI)
  assume "jobs = []"
  then show "compute_tfidf_recommendations ar analyze user jobs limit = Inr []"
    by (simp add: compute_tfidf_recommendations_def)
next
  assume a: "jobs \<noteq> [] \<and> concat (map analyze (all_texts user jobs)) \<noteq> []"
  then have ne: "jobs \<noteq> []" by simp
  from a obtain scores where sc: "similarity_scores ar analyze user jobs = Inr scores"
    using similarity_scores_defined by blast
  define ranking where "ranking = sort_by_score_desc (zip jobs scores)"
  have len: "length ranking = length jobs"
    using similarity_scores_Inr[OF sc] by (simp add: ranking_def sort_by_score_desc_def)
  have full: "compute_tfidf_recommendations ar analyze user jobs (int (length jobs)) = Inr ranking"
    unfolding compute_as_slice[OF ne sc] ranking_def[symmetric]
    using len by (simp add: slice_upto_def)
  have srt: "sorted_wrt (\<lambda>p q. snd q \<le> snd p) ranking"
  proof -
    have "sorted (map (\<lambda>x. - snd x) ranking)"
      unfolding ranking_def sort_by_score_desc_def by (rule sorted_sort_key)
    then show ?thesis by (simp add: sorted_map sorted_wrt_iff_nth_less)
  qed
  have "nat (int (length jobs) + limit) = length jobs - nat (- limit)" if "limit < 0"
    using that by linarith
  then have "compute_tfidf_recommendations ar analyze user jobs limit =
               Inr (if 0 \<le> limit then take (nat limit) ranking
                    else take (length jobs - nat (- limit)) ranking)"
    unfolding compute_as_slice[OF ne sc] ranking_def[symmetric]
    using len by (simp add: slice_upto_def)
  with full len srt
  show "\<exists>ranking.
           compute_tfidf_recommendations ar analyze user jobs (int (length jobs)) = Inr ranking
           \<and> length ranking = length jobs
           \<and> sorted_wrt (\<lambda>p q. snd q \<le> snd p) ranking
           \<and> compute_tfidf_recommendations ar analyze user jobs limit =
               Inr (if 0 \<le> limit then take (nat limit) ranking
                    else take (length jobs - nat (- limit)) ranking)"
    by blast
qed

theorem C5_any_limit_returns_witness:
  "compute_tfidf_recommendations float64 (build_analyzer some_stop_words) ann [] (- 3) = Inr []
   \<and> (\<exists>ranking. compute_tfidf_recommendations float64 (build_analyzer some_stop_words) ann
               [analyst_job, chef_job] 2 = Inr ranking
         \<and> length ranking = 2
         \<and> compute_tfidf_recommendations float64 (build_analyzer some_stop_words) ann
               [analyst_job, chef_job] (- 1) = Inr (take 1 ranking)
         \<and> compute_tfidf_recommendations float64 (build_analyzer some_stop_words) ann
               [analyst_job, chef_job] 1 = Inr (take 1 ranking)
         \<and> compute_tfidf_recommendations float64 (build_analyzer some_stop_words) ann
               [analyst_job, chef_job] 7 = Inr ranking)"
proof -
  let ?c = "compute_tfidf_recommendations float64 (build_analyzer some_stop_words) ann"
  have h: "[analyst_job, chef_job] \<noteq> []
        \<and> concat (map (build_analyzer some_stop_words) (all_texts ann [analyst_job, chef_job])) \<noteq> []"
    using example_vocabulary by simp
  from C5_any_limit_returns[of "[analyst_job, chef_job]" float64 "build_analyzer some_stop_words" ann "- 1"] h
  obtain ranking where r: "?c [analyst_job, chef_job] 2 = Inr ranking"
    and l: "length ranking = 2"
    and m: "?c [analyst_job, chef_job] (- 1) = Inr (take 1 ranking)"
    by auto
  from C5_any_limit_returns[of "[analyst_job, chef_job]" float64 "build_analyzer some_stop_words" ann 1] h r
  have p: "?c [analyst_job, chef_job] 1 = Inr (take 1 ranking)" by auto
  from C5_any_limit_returns[of "[analyst_job, chef_job]" float64 "build_analyzer some_stop_words" ann 7] h r l
  have q: "?c [analyst_job, chef_job] 7 = Inr ranking" by auto
  from C5_any_limit_returns[of "[]" float64 "build_analyzer some_stop_words" ann "- 3"]
  have e: "?c [] (- 3) = Inr []" by simp
  from e r l m p q show ?thesis by blast
qed

section \<open>Texts without a common term score zero\<close>

text \<open>
  When rounding keeps zero, a product with a zero is zero and a sum of zeros is zero, so
  the score of a job whose text shares no term with the user text is exactly 0.
\<close>

lemma fold_products_zero:
  assumes "rnd ar 0 = 0" and "\<forall>p\<in>set ps. fst p = 0 \<or> snd p = 0"
  shows "fold (\<lambda>p acc. fadd ar acc (fmul ar (fst p) (snd p))) ps 0 = 0"
  using assms(2)
proof (induction ps)
  case Nil
  then show ?case by simp
next
  case (Cons p ps)
  then have "fst p * snd p = 0" by auto
  then have "fadd ar 0 (fmul ar (fst p) (snd p)) = 0"
    using assms(1) by (simp only: fadd_def fmul_def add_0_left)
  with Cons show ?case by simp
qed

lemma length_l2_normalize: "length (l2_normalize ar v) = length v"
  by (simp add: l2_normalize_def Let_def)

lemma l2_normalize_keeps_zero:
  assumes "rnd ar 0 = 0" and "i < length v" and "v ! i = 0"
  shows "l2_normalize ar v ! i = 0"
  using assms by (simp add: l2_normalize_def Let_def fdiv_def)

lemma length_tfidf_row: "length (tfidf_row ar D vocabulary d) = length vocabulary"
  by (simp add: tfidf_row_def length_l2_normalize)

lemma tfidf_row_zero:
  assumes "rnd ar 0 = 0" and "i < length vocabulary" and "count_list d (vocabulary ! i) = 0"
  shows "tfidf_row ar D vocabulary d ! i = 0"
  unfolding tfidf_row_def
  by (rule l2_normalize_keeps_zero) (use assms in \<open>simp_all add: fmul_def\<close>)

lemma dot_rows_without_common_term:
  assumes z: "rnd ar 0 = 0" and d: "set d0 \<inter> set d1 = {}"
  shows "dot ar (l2_normalize ar (tfidf_row ar D vocabulary d0))
                (l2_normalize ar (tfidf_row ar D vocabulary d1)) = 0"
proof -
  let ?x = "l2_normalize ar (tfidf_row ar D vocabulary d0)"
  let ?y = "l2_normalize ar (tfidf_row ar D vocabulary d1)"
  have lx: "length ?x = length vocabulary" and ly: "length ?y = length vocabulary"
    by (simp_all add: length_l2_normalize length_tfidf_row)
  have "fst p = 0 \<or> snd p = 0" if "p \<in> set (zip ?x ?y)" for p
  proof -
    from that obtain i where i: "i < length vocabulary" and p: "p = (?x ! i, ?y ! i)"
      using lx ly by (auto simp: set_zip)
    have "count_list d0 (vocabulary ! i) = 0 \<or> count_list d1 (vocabulary ! i) = 0"
      using d by (auto simp: count_list_0_iff)
    then show ?thesis
    proof
      assume "count_list d0 (vocabulary ! i) = 0"
      then have "tfidf_row ar D vocabulary d0 ! i = 0" using z i by (rule tfidf_row_zero[rotated 2])
      then have "?x ! i = 0" using z i by (simp add: l2_normalize_keeps_zero length_tfidf_row)
      then show ?thesis by (simp add: p)
    next
      assume "count_list d1 (vocabulary ! i) = 0"
      then have "tfidf_row ar D vocabulary d1 ! i = 0" using z i by (rule tfidf_row_zero[rotated 2])
      then have "?y ! i = 0" using z i by (simp add: l2_normalize_keeps_zero length_tfidf_row)
      then show ?thesis by (simp add: p)
    qed
  qed
  then show ?thesis unfolding dot_def using z by (intro fold_products_zero) auto
qed

lemma scores_without_common_term:
  assumes z: "rnd ar 0 = 0"
    and sc: "similarity_scores ar analyze user jobs = Inr scores"
    and d: "\<forall>j\<in>set jobs. set (analyze (combine_user_profile_text user))
                             \<inter> set (analyze (combine_job_text j)) = {}"
  shows "\<forall>s\<in>set scores. s = 0"
proof -
  let ?D = "map analyze (all_texts user jobs)"
  from sc obtain M where M: "fit_transform ar analyze (all_texts user jobs) = Inr M"
    by (auto simp: similarity_scores_def split: sum.splits)
  have ne: "concat ?D \<noteq> []"
  proof
    assume "concat ?D = []"
    from fit_transform_empty[OF this, of ar] M show False by simp
  qed
  from fit_transform_nonempty[OF ne, of ar] M obtain kept
    where Mk: "M = map (tfidf_row ar ?D kept) ?D" by auto
  have Mc: "M = tfidf_row ar ?D kept (analyze (combine_user_profile_text user))
               # map (\<lambda>j. tfidf_row ar ?D kept (analyze (combine_job_text j))) jobs"
    by (simp add: Mk all_texts_def o_def)
  have "scores = map (\<lambda>j. dot ar
           (l2_normalize ar (tfidf_row ar ?D kept (analyze (combine_user_profile_text user))))
           (l2_normalize ar (tfidf_row ar ?D kept (analyze (combine_job_text j))))) jobs"
    using sc unfolding similarity_scores_def M
    by (simp add: Mc cosine_similarity_single o_def)
  then show ?thesis using d dot_rows_without_common_term[OF z] by auto
qed

lemma round64_zero: "rnd float64 0 = 0"
  by (simp add: float64_def round64_def)

section \<open>Text composition: the whitespace at both ends\<close>

lemma strip_decomposition:
  "\<exists>pre suf. s = pre @ strip s @ suf \<and> (\<forall>c\<in>set pre. isspace c) \<and> (\<forall>c\<in>set suf. isspace c)"
proof -
  define t where "t = dropWhile isspace s"
  define u where "u = dropWhile isspace (rev t)"
  define w where "w = takeWhile isspace (rev t)"
  have s: "s = takeWhile isspace s @ t" by (simp add: t_def)
  have "rev t = w @ u" by (simp add: u_def w_def)
  then have "rev (rev t) = rev (w @ u)" by simp
  then have t: "t = rev u @ rev w" by simp
  have st: "strip s = rev u" by (simp add: strip_def t_def u_def)
  have 1: "\<forall>c\<in>set (takeWhile isspace s). isspace c" by (auto dest: set_takeWhileD)
  have 2: "\<forall>c\<in>set (rev w). isspace c" unfolding w_def by (auto dest: set_takeWhileD)
  have "s = takeWhile isspace s @ strip s @ rev w"
    using s t st by simp
  with 1 2 show ?thesis by blast
qed

lemma strip_ends:
  assumes "strip s \<noteq> []"
  shows "\<not> isspace (hd (strip s))" and "\<not> isspace (last (strip s))"
proof -
  define t where "t = dropWhile isspace s"
  define u where "u = dropWhile isspace (rev t)"
  have st: "strip s = rev u" by (simp add: strip_def t_def u_def)
  have une: "u \<noteq> []" using assms st by simp
  then have "\<not> isspace (hd u)" unfolding u_def by (rule hd_dropWhile)
  then show "\<not> isspace (last (strip s))" using une by (simp add: st last_rev)
  have "rev t = takeWhile isspace (rev t) @ u" by (simp add: u_def)
  then have "rev (rev t) = rev (takeWhile isspace (rev t) @ u)" by simp
  then have t: "t = rev u @ rev (takeWhile isspace (rev t))" by simp
  have "rev u \<noteq> []" using une by simp
  then have "hd t = hd (rev u)" by (subst t) simp
  moreover have "t \<noteq> []" using t une by auto
  then have "\<not> isspace (hd t)" unfolding t_def by (rule hd_dropWhile)
  ultimately show "\<not> isspace (hd (strip s))" by (simp add: st)
qed

lemma combine_user_profile_text_unfold:
  "combine_user_profile_text user =
     strip (or_empty (full_name user) @ '' '' @ or_empty (disability_type user) @ '' ''
            @ or_empty (accessibility_needs user))"
  by (simp add: combine_user_profile_text_def)

lemma combine_job_text_unfold:
  "combine_job_text j =
     strip (or_empty (title j) @ '' '' @ or_empty (skills j) @ '' ''
            @ or_empty (description j))"
  by (simp add: combine_job_text_def)

text \<open>
  Claim C7, as stated, fails: for a user with a name and no other text the plain
  concatenation ends with the two separating spaces, and the composed text does not.
\<close>

theorem C7_trailing_spaces_counterexample:
  "combine_user_profile_text ben \<noteq>
     or_empty (full_name ben) @ '' '' @ or_empty (disability_type ben) @ '' ''
       @ or_empty (accessibility_needs ben)"
  by (simp add: combine_user_profile_text_def ben_def or_empty_def strip_def isspace_def)

text \<open>
  Claim C7, amended. The composed user text is the space-separated concatenation, in this
  order, of display name, disability category and accessibility needs, absent fields
  taken as empty, with the leading and the trailing whitespace removed: the concatenation
  is the composed text between two runs of whitespace, and the composed text, when not
  empty, neither starts nor ends with whitespace. The same holds for the composed job
  text and the concatenation of title, skills and description.
\<close>

theorem C7_composed_text_stripped:
  "(\<exists>pre suf.
      or_empty (full_name user) @ '' '' @ or_empty (disability_type user) @ '' ''
        @ or_empty (accessibility_needs user) = pre @ combine_user_profile_text user @ suf
      \<and> (\<forall>c\<in>set pre. isspace c) \<and> (\<forall>c\<in>set suf. isspace c))
   \<and> (combine_user_profile_text user \<noteq> [] \<longrightarrow>
        \<not> isspace (hd (combine_user_profile_text user))
        \<and> \<not> isspace (last (combine_user_profile_text user)))
   \<and> (\<exists>pre suf.
      or_empty (title j) @ '' '' @ or_empty (skills j) @ '' ''
        @ or_empty (description j) = pre @ combine_job_text j @ suf
      \<and> (\<forall>c\<in>set pre. isspace c) \<and> (\<forall>c\<in>set suf. isspace c))
   \<and> (combine_job_text j \<noteq> [] \<longrightarrow>
        \<not> isspace (hd (combine_job_text j)) \<and> \<not> isspace (last (combine_job_text j)))"
  unfolding combine_user_profile_text_unfold combine_job_text_unfold
  using strip_decomposition strip_ends by blast

theorem C7_composed_text_stripped_witness:
  "combine_user_profile_text ann = ''Ann Lee low vision screen reader''
   \<and> \<not> isspace (hd (combine_user_profile_text ann))
   \<and> \<not> isspace (last (combine_user_profile_text ann))
   \<and> combine_job_text chef_job = ''Chef  Kitchen and grill''
   \<and> \<not> isspace (hd (combine_job_text chef_job))
   \<and> \<not> isspace (last (combine_job_text chef_job))"
proof -
  have u: "combine_user_profile_text ann = ''Ann Lee low vision screen reader''"
    by (simp add: combine_user_profile_text_def ann_def or_empty_def strip_def isspace_def)
  have j: "combine_job_text chef_job = ''Chef  Kitchen and grill''"
    by (simp add: combine_job_text_def chef_job_def or_empty_def strip_def isspace_def)
  have "combine_user_profile_text ann \<noteq> []" and "combine_job_text chef_job \<noteq> []"
    by (simp_all add: u j)
  with C7_composed_text_stripped[of ann chef_job] u j show ?thesis by metis
qed

section \<open>The API layer: not found, empty pool, totals and the request schema\<close>

lemma comprehension_length:
  "comprehension f xs = Inr ys \<Longrightarrow> length ys = length xs"
  by (induction xs arbitrary: ys) (auto split: sum.splits)

lemma comprehension_defined:
  "\<forall>x\<in>set xs. \<exists>y. f x = Inr y \<Longrightarrow> \<exists>ys. comprehension f xs = Inr ys"
  by (induction xs) (auto split: sum.splits)

text \<open>
  Claim C8. If the user identifier of the request is not in the store, the handler returns
  the not-found error, whatever the ranker is (so without calling it); if the user exists
  and the job pool is empty, it returns a success response with no recommendation and a
  total of 0; and in every success response the total equals the number of returned
  recommendations. The handler of the repository is \<open>recommend_jobs_with\<close> at the
  ranker \<open>compute_tfidf_recommendations analyze\<close>.
\<close>

theorem C8_api_layer:
  "(find (\<lambda>u. user_id u = req_user_id request) (db_users db) = None \<longrightarrow>
      recommend_jobs_with ranker request db = Inl (HTTPException 404 ''User not found''))
   \<and> (find (\<lambda>u. user_id u = req_user_id request) (db_users db) \<noteq> None \<and> db_jobs db = [] \<longrightarrow>
      recommend_jobs_with ranker request db =
        Inr \<lparr>resp_user_id = req_user_id request, recommendations = [], total_found = 0\<rparr>)
   \<and> (recommend_jobs_with ranker request db = Inr response \<longrightarrow>
      total_found response = int (length (recommendations response)))"
  by (auto simp: recommend_jobs_with_def Let_def split: option.splits sum.splits if_splits)

lemma example_jobs_validate:
  "JobResponse_model_validate analyst_job = Inr analyst_job"
  "JobResponse_model_validate chef_job = Inr chef_job"
  by (simp_all add: JobResponse_model_validate_def str_between_def analyst_job_def chef_job_def)


lemma ben_vocabulary:
  "concat (map (build_analyzer some_stop_words) (all_texts ben [analyst_job, chef_job])) \<noteq> []"
  by code_simp

lemma ben_shares_no_term:
  "\<forall>j\<in>set [analyst_job, chef_job].
     set (build_analyzer some_stop_words (combine_user_profile_text ben))
       \<inter> set (build_analyzer some_stop_words (combine_job_text j)) = {}"
  by code_simp

lemma example_recommendations:
  "\<exists>response. recommend_jobs float64 (build_analyzer some_stop_words)
       \<lparr>req_user_id = 2, req_limit = 10\<rparr> store = Inr response
     \<and> length (recommendations response) = 2"
proof -
  let ?jobs = "[analyst_job, chef_job]"
  obtain res where
    r: "compute_tfidf_recommendations float64 (build_analyzer some_stop_words) ben ?jobs 10 = Inr res"
    using compute_defined[OF _ ben_vocabulary] by auto
  have l: "length res = 2" using compute_length[OF _ r] by simp
  from compute_Inr_unfold[OF _ r] obtain scores where
    sc: "similarity_scores float64 (build_analyzer some_stop_words) ben ?jobs = Inr scores"
    and rr: "res = slice_upto 10 (sort_by_score_desc (zip ?jobs scores))"
    by auto
  have z: "\<forall>s\<in>set scores. s = 0"
    by (rule scores_without_common_term[OF round64_zero sc ben_shares_no_term])
  have sub: "set res \<subseteq> set (zip ?jobs scores)"
  proof -
    obtain m where "res = take m (sort_by_score_desc (zip ?jobs scores))"
      unfolding rr using slice_upto_is_take by blast
    then have "set res \<subseteq> set (sort_by_score_desc (zip ?jobs scores))"
      by (simp add: set_take_subset)
    then show ?thesis by (simp add: sort_by_score_desc_def)
  qed
  have "\<forall>p\<in>set res. \<exists>y. make_JobRecommendation p = Inr y"
  proof
    fix p assume "p \<in> set res"
    then have "p \<in> set (zip ?jobs scores)" using sub by blast
    then have m: "(fst p, snd p) \<in> set (zip ?jobs scores)" by simp
    have "fst p \<in> set ?jobs" by (rule set_zip_leftD[OF m])
    moreover have "snd p \<in> set scores" by (rule set_zip_rightD[OF m])
    ultimately have "fst p \<in> set ?jobs" and "snd p \<in> set scores" .
    then have "fst p = analyst_job \<or> fst p = chef_job" and "snd p = 0" using z by auto
    then show "\<exists>y. make_JobRecommendation p = Inr y"
      by (auto simp: make_JobRecommendation_def example_jobs_validate)
  qed
  then obtain recs where c: "comprehension make_JobRecommendation res = Inr recs"
    using comprehension_defined by blast
  have "length recs = 2" using comprehension_length[OF c] l by simp
  moreover have "recommend_jobs float64 (build_analyzer some_stop_words)
       \<lparr>req_user_id = 2, req_limit = 10\<rparr> store =
     Inr \<lparr>resp_user_id = 2, recommendations = recs, total_found = int (length recs)\<rparr>"
    using r c by (simp add: recommend_jobs_def recommend_jobs_with_def store_def ann_def ben_def)
  ultimately show ?thesis by simp
qed

theorem C8_api_layer_witness:
  "recommend_jobs_with (compute_tfidf_recommendations float64 (build_analyzer some_stop_words))
       \<lparr>req_user_id = 9, req_limit = 10\<rparr> store = Inl (HTTPException 404 ''User not found'')
   \<and> recommend_jobs_with (compute_tfidf_recommendations float64 (build_analyzer some_stop_words))
       \<lparr>req_user_id = 2, req_limit = 10\<rparr> store_without_jobs =
       Inr \<lparr>resp_user_id = 2, recommendations = [], total_found = 0\<rparr>
   \<and> (\<exists>response. recommend_jobs_with (compute_tfidf_recommendations float64 (build_analyzer some_stop_words))
       \<lparr>req_user_id = 2, req_limit = 10\<rparr> store = Inr response
       \<and> total_found response = 2)"
proof -
  let ?ranker = "compute_tfidf_recommendations float64 (build_analyzer some_stop_words)"
  have a: "find (\<lambda>u. user_id u = req_user_id \<lparr>req_user_id = 9, req_limit = 10\<rparr>) (db_users store) = None"
    by (simp add: store_def ann_def ben_def)
  have b: "find (\<lambda>u. user_id u = req_user_id \<lparr>req_user_id = 2, req_limit = 10\<rparr>)
             (db_users store_without_jobs) \<noteq> None \<and> db_jobs store_without_jobs = []"
    by (simp add: store_without_jobs_def ann_def ben_def)
  from example_recommendations obtain response where
    c: "recommend_jobs_with ?ranker \<lparr>req_user_id = 2, req_limit = 10\<rparr> store = Inr response"
    and l: "length (recommendations response) = 2"
    by (auto simp: recommend_jobs_def)
  from C8_api_layer[of "\<lparr>req_user_id = 9, req_limit = 10\<rparr>" store ?ranker] a
  have 1: "recommend_jobs_with ?ranker \<lparr>req_user_id = 9, req_limit = 10\<rparr> store =
             Inl (HTTPException 404 ''User not found'')" by blast
  from C8_api_layer[of "\<lparr>req_user_id = 2, req_limit = 10\<rparr>" store_without_jobs ?ranker] b
  have 2: "recommend_jobs_with ?ranker \<lparr>req_user_id = 2, req_limit = 10\<rparr> store_without_jobs =
             Inr \<lparr>resp_user_id = 2, recommendations = [], total_found = 0\<rparr>" by simp
  from C8_api_layer[of "\<lparr>req_user_id = 2, req_limit = 10\<rparr>" store ?ranker response] c l
  have 3: "total_found response = 2" by simp
  from 1 2 3 c show ?thesis by blast
qed

text \<open>
  Claim C10. The request schema accepts a body only when its user identifier is strictly
  positive and its limit is between 1 and 50, and an omitted limit becomes 10; so the
  route never calls the ranker with a limit outside 1 to 50: its response is the same
  when the ranker is replaced, for every limit outside that range, by anything else.
\<close>

theorem C10_request_schema:
  "(validate_RecommendationRequest body = Inr request \<longrightarrow>
      body_user_id body = Some (req_user_id request) \<and> 0 < req_user_id request
      \<and> 1 \<le> req_limit request \<and> req_limit request \<le> 50
      \<and> (case body_limit body of None \<Rightarrow> req_limit request = 10
          | Some l \<Rightarrow> req_limit request = l))
   \<and> post_recommend_with ranker body db =
       post_recommend_with
         (\<lambda>u js l. if 1 \<le> l \<and> l \<le> 50 then ranker u js l else other u js l) body db"
proof -
  have a: "body_user_id body = Some (req_user_id request) \<and> 0 < req_user_id request
      \<and> 1 \<le> req_limit request \<and> req_limit request \<le> 50
      \<and> (case body_limit body of None \<Rightarrow> req_limit request = 10
          | Some l \<Rightarrow> req_limit request = l)"
    if "validate_RecommendationRequest body = Inr request"
    using that
    by (auto simp: validate_RecommendationRequest_def split: option.splits if_splits)
  have b: "post_recommend_with ranker body db =
       post_recommend_with
         (\<lambda>u js l. if 1 \<le> l \<and> l \<le> 50 then ranker u js l else other u js l) body db"
  proof (cases "validate_RecommendationRequest body")
    case (Inl e)
    then show ?thesis by (simp add: post_recommend_with_def)
  next
    case (Inr r)
    then have "1 \<le> req_limit r" and "req_limit r \<le> 50"
      by (auto simp: validate_RecommendationRequest_def split: option.splits if_splits)
    then show ?thesis using Inr
      by (simp add: post_recommend_with_def recommend_jobs_with_def Let_def split: option.splits)
  qed
  from a b show ?thesis by blast
qed

theorem C10_request_schema_witness:
  "(\<exists>request. validate_RecommendationRequest \<lparr>body_user_id = Some 1, body_limit = None\<rparr> =
        Inr request \<and> req_user_id request = 1 \<and> req_limit request = 10)
   \<and> (\<exists>e. validate_RecommendationRequest \<lparr>body_user_id = Some 1, body_limit = Some 51\<rparr> = Inl e)
   \<and> (\<exists>e. validate_RecommendationRequest \<lparr>body_user_id = Some 1, body_limit = Some 0\<rparr> = Inl e)
   \<and> (\<exists>e. validate_RecommendationRequest \<lparr>body_user_id = Some 0, body_limit = None\<rparr> = Inl e)"
proof -
  obtain request where
    v: "validate_RecommendationRequest \<lparr>body_user_id = Some 1, body_limit = None\<rparr> = Inr request"
    by (simp add: validate_RecommendationRequest_def)
  from C10_request_schema[of "\<lparr>body_user_id = Some 1, body_limit = None\<rparr>" request, THEN conjunct1] v
  have "req_user_id request = 1 \<and> req_limit request = 10" by auto
  with v have u: "\<exists>request. validate_RecommendationRequest \<lparr>body_user_id = Some 1, body_limit = None\<rparr> =
        Inr request \<and> req_user_id request = 1 \<and> req_limit request = 10" by blast
  have x: "\<exists>e. validate_RecommendationRequest \<lparr>body_user_id = Some 1, body_limit = Some 51\<rparr> = Inl e"
  proof (cases "validate_RecommendationRequest \<lparr>body_user_id = Some 1, body_limit = Some 51\<rparr>")
    case (Inr request)
    with C10_request_schema[of "\<lparr>body_user_id = Some 1, body_limit = Some 51\<rparr>" request, THEN conjunct1]
    show ?thesis by auto
  qed simp
  have y: "\<exists>e. validate_RecommendationRequest \<lparr>body_user_id = Some 1, body_limit = Some 0\<rparr> = Inl e"
  proof (cases "validate_RecommendationRequest \<lparr>body_user_id = Some 1, body_limit = Some 0\<rparr>")
    case (Inr request)
    with C10_request_schema[of "\<lparr>body_user_id = Some 1, body_limit = Some 0\<rparr>" request, THEN conjunct1]
    show ?thesis by auto
  qed simp
  have z: "\<exists>e. validate_RecommendationRequest \<lparr>body_user_id = Some 0, body_limit = None\<rparr> = Inl e"
  proof (cases "validate_RecommendationRequest \<lparr>body_user_id = Some 0, body_limit = None\<rparr>")
    case (Inr request)
    with C10_request_schema[of "\<lparr>body_user_id = Some 0, body_limit = None\<rparr>" request, THEN conjunct1]
    show ?thesis by auto
  qed simp
  from u x y z show ?thesis by simp
qed

section \<open>The empty vocabulary through the API\<close>

text \<open>
  The failure of the vectorizer with rows that satisfy the schemas of the API: every text
  is one character long, the token pattern asks for two, so the corpus has no term, and
  the route ends in the error of the vectorizer.
\<close>

lemma terse_rows_valid:
  "JobResponse_model_validate terse_job = Inr terse_job"
  by (simp add: JobResponse_model_validate_def str_between_def terse_job_def)

lemma terse_request_raises:
  "post_recommend_with (compute_tfidf_recommendations ar (build_analyzer stop_words))
     \<lparr>body_user_id = Some 4, body_limit = None\<rparr> terse_store =
   Inl (ValueError ''empty vocabulary; perhaps the documents only contain stop words'')"
proof -
  have "compute_tfidf_recommendations ar (build_analyzer stop_words) initial_user [terse_job] 10 =
    Inl (ValueError ''empty vocabulary; perhaps the documents only contain stop words'')"
    by (rule compute_empty_vocabulary[OF _ terse_corpus_no_term]) simp
  then show ?thesis
    by (simp add: post_recommend_with_def validate_RecommendationRequest_def
        recommend_jobs_with_def terse_store_def initial_user_def)
qed

section \<open>Rounding to 64-bit floats\<close>

lemma round_half_even_near:
  assumes "of_int m - 1 / 2 < y" and "y < of_int m + 1 / 2"
  shows "round_half_even y = m"
proof -
  have "\<lfloor>y\<rfloor> = m \<or> \<lfloor>y\<rfloor> = m - 1"
    using assms by (simp add: floor_eq_iff) linarith
  then show ?thesis
  proof
    assume f: "\<lfloor>y\<rfloor> = m"
    then have "y - of_int \<lfloor>y\<rfloor> < 1 / 2" using assms by simp
    then show ?thesis using f by (simp add: round_half_even_def Let_def)
  next
    assume f: "\<lfloor>y\<rfloor> = m - 1"
    then have "1 / 2 < y - of_int \<lfloor>y\<rfloor>" using assms by simp
    then show ?thesis using f by (simp add: round_half_even_def Let_def)
  qed
qed

lemma round64_scaled:
  fixes x :: real
  assumes "2 ^ 52 \<le> x * 2 ^ k" and "x * 2 ^ k < 2 ^ 53"
    and "of_int m - 1 / 2 < x * 2 ^ k" and "x * 2 ^ k < of_int m + 1 / 2"
  shows "round64 x = of_int m / 2 ^ k"
proof -
  have pos: "0 < x"
  proof (rule ccontr)
    assume "\<not> 0 < x"
    then have "x * 2 ^ k \<le> 0" by (simp add: mult_le_0_iff)
    with assms(1) have "(2::real) ^ 52 \<le> 0" by linarith
    then show False by simp
  qed
  define e :: int where "e = 52 - int k"
  have u: "(2::real) powr (of_int e - 52) = 1 / 2 ^ k"
    by (simp add: e_def powr_minus powr_realpow inverse_eq_divide)
  have lo: "(2::real) powr of_int e \<le> x"
  proof -
    have "(2::real) powr of_int e = 2 powr (52 - real k)" by (simp add: e_def)
    also have "\<dots> = 2 powr 52 / 2 powr real k" by (rule powr_diff)
    also have "\<dots> = 2 ^ 52 / 2 ^ k" by (simp add: powr_realpow)
    also have "\<dots> \<le> x" using assms(1) by (simp add: field_simps)
    finally show ?thesis .
  qed
  have hi: "x < 2 powr (of_int e + 1)"
  proof -
    have "(2::real) powr (of_int e + 1) = 2 powr (53 - real k)" by (simp add: e_def)
    also have "\<dots> = 2 powr 53 / 2 powr real k" by (rule powr_diff)
    also have "\<dots> = 2 ^ 53 / 2 ^ k" by (simp add: powr_realpow)
    finally have "(2::real) powr (of_int e + 1) = 2 ^ 53 / 2 ^ k" .
    moreover have "x < 2 ^ 53 / 2 ^ k" using assms(2) by (simp add: field_simps)
    ultimately show ?thesis by simp
  qed
  have fl: "\<lfloor>log 2 \<bar>x\<bar>\<rfloor> = e"
    using pos lo hi by (simp add: floor_eq_iff le_log_iff log_less_iff)
  have rh: "round_half_even (x / (1 / 2 ^ k)) = m"
    by (rule round_half_even_near) (use assms(3,4) in simp_all)
  have "round64 x = 2 powr (of_int e - 52) * of_int (round_half_even (x / 2 powr (of_int e - 52)))"
    using pos fl by (simp add: round64_def Let_def)
  also have "\<dots> = 1 / 2 ^ k * of_int m" unfolding u rh ..
  finally show ?thesis by simp
qed

lemma round64_1: "round64 1 = 1"
  using round64_scaled[of 1 52 "2 ^ 52"] by simp

lemma round64_2: "round64 2 = 2"
  using round64_scaled[of 2 51 "2 ^ 52"] by simp

lemma round64_3: "round64 3 = 3"
  using round64_scaled[of 3 51 "3 * 2 ^ 51"] by simp


lemma round64_0: "round64 0 = 0"
  by (simp add: round64_def)

lemma round64_sqrt_3: "round64 (sqrt 3) = 7800463371553962 / 2 ^ 52"
proof -
  have lo: "(7800463371553962 - 1 / 2) / 2 ^ 52 < sqrt 3"
    by (rule real_less_rsqrt) (simp add: power2_eq_square)
  have hi: "sqrt 3 < (7800463371553962 + 1 / 2) / 2 ^ 52"
    by (rule real_less_lsqrt) (simp_all add: power2_eq_square)
  have "round64 (sqrt 3) = of_int 7800463371553962 / 2 ^ 52"
    by (rule round64_scaled) (use lo hi in \<open>simp_all add: field_simps\<close>)
  then show ?thesis by simp
qed

lemma round64_inverse:
  "round64 (1 / (7800463371553962 / 2 ^ 52)) = 5200308914369309 / 2 ^ 53"
proof -
  have "round64 (1 / (7800463371553962 / 2 ^ 52)) = of_int 5200308914369309 / 2 ^ 53"
    by (rule round64_scaled) simp_all
  then show ?thesis by simp
qed

lemma round64_square:
  "round64 (5200308914369309 / 2 ^ 53 * (5200308914369309 / 2 ^ 53)) = 6004799503160663 / 2 ^ 54"
proof -
  have "round64 (5200308914369309 / 2 ^ 53 * (5200308914369309 / 2 ^ 53)) =
        of_int 6004799503160663 / 2 ^ 54"
    by (rule round64_scaled) simp_all
  then show ?thesis by simp
qed

lemma round64_first: "round64 (6004799503160663 / 2 ^ 54) = 6004799503160663 / 2 ^ 54"
proof -
  have "round64 (6004799503160663 / 2 ^ 54) = of_int 6004799503160663 / 2 ^ 54"
    by (rule round64_scaled) simp_all
  then show ?thesis by simp
qed

lemma round64_second:
  "round64 (6004799503160663 / 2 ^ 54 + 6004799503160663 / 2 ^ 54) = 6004799503160663 / 2 ^ 53"
proof -
  have "round64 (6004799503160663 / 2 ^ 54 + 6004799503160663 / 2 ^ 54) =
        of_int 6004799503160663 / 2 ^ 53"
    by (rule round64_scaled) simp_all
  then show ?thesis by simp
qed

lemma round64_third:
  "round64 (6004799503160663 / 2 ^ 53 + 6004799503160663 / 2 ^ 54) = 4503599627370497 / 2 ^ 52"
proof -
  have "round64 (6004799503160663 / 2 ^ 53 + 6004799503160663 / 2 ^ 54) =
        of_int 4503599627370497 / 2 ^ 52"
    by (rule round64_scaled) simp_all
  then show ?thesis by simp
qed

lemma round64_sqrt_above_1: "round64 (sqrt (4503599627370497 / 2 ^ 52)) = 1"
proof -
  define r :: real where "r = sqrt (4503599627370497 / 2 ^ 52)"
  have lo: "1 \<le> r"
    unfolding r_def by simp
  have hi: "r < (4503599627370496 + 1 / 2) / 2 ^ 52"
    unfolding r_def by (rule real_less_lsqrt) (simp_all add: power2_eq_square)
  have "round64 r = of_int 4503599627370496 / 2 ^ 52"
    by (rule round64_scaled) (use lo hi in \<open>simp_all add: field_simps\<close>)
  then show ?thesis by (simp add: r_def)
qed

lemma round64_entry: "round64 (5200308914369309 / 2 ^ 53) = 5200308914369309 / 2 ^ 53"
proof -
  have "round64 (5200308914369309 / 2 ^ 53) = of_int 5200308914369309 / 2 ^ 53"
    by (rule round64_scaled) simp_all
  then show ?thesis by simp
qed

section \<open>Identical texts in 64-bit floats\<close>

lemma float64_rnd: "rnd float64 = round64"
  by (simp add: float64_def)

lemma float64_flog_1: "flog float64 1 = 0"
  by (simp add: float64_def round64_0)

lemma idf_all_documents:
  assumes "length D = 2" and "document_frequency D t = 2"
  shows "idf float64 D t = 1"
  using assms
  by (simp add: idf_def fadd_def fdiv_def float64_rnd float64_flog_1 round64_1)

lemma sum_squares_ones: "sum_squares float64 [1, 1, 1] = 3"
  by (simp add: sum_squares_def fadd_def fmul_def float64_rnd round64_1 round64_2 round64_3)

lemma l2_normalize_ones:
  "l2_normalize float64 [1, 1, 1] =
     [5200308914369309 / 2 ^ 53, 5200308914369309 / 2 ^ 53, 5200308914369309 / 2 ^ 53]"
proof -
  have "l2_normalize float64 [1, 1, 1] =
          map (\<lambda>x. round64 (x / (7800463371553962 / 2 ^ 52))) [1, 1, 1]"
    by (simp add: l2_normalize_def sum_squares_ones fsqrt_def fdiv_def float64_rnd
        round64_sqrt_3 del: power_numeral)
  also have "\<dots> = [5200308914369309 / 2 ^ 53, 5200308914369309 / 2 ^ 53,
                    5200308914369309 / 2 ^ 53]"
    by (simp only: list.map round64_inverse)
  finally show ?thesis .
qed

lemma sum_squares_normalized:
  "sum_squares float64
     [5200308914369309 / 2 ^ 53, 5200308914369309 / 2 ^ 53, 5200308914369309 / 2 ^ 53] =
   4503599627370497 / 2 ^ 52"
  by (simp only: sum_squares_def fold_simps fadd_def fmul_def float64_rnd round64_square
      add_0_left round64_first round64_second round64_third)

lemma l2_normalize_normalized:
  "l2_normalize float64
     [5200308914369309 / 2 ^ 53, 5200308914369309 / 2 ^ 53, 5200308914369309 / 2 ^ 53] =
   [5200308914369309 / 2 ^ 53, 5200308914369309 / 2 ^ 53, 5200308914369309 / 2 ^ 53]"
proof -
  have ne: "(4503599627370497 / 2 ^ 52 :: real) \<noteq> 0" by simp
  have "l2_normalize float64
     [5200308914369309 / 2 ^ 53, 5200308914369309 / 2 ^ 53, 5200308914369309 / 2 ^ 53] =
     map (\<lambda>x. round64 (x / 1))
       [5200308914369309 / 2 ^ 53, 5200308914369309 / 2 ^ 53, 5200308914369309 / 2 ^ 53]"
    unfolding l2_normalize_def sum_squares_normalized Let_def fsqrt_def fdiv_def float64_rnd
      round64_sqrt_above_1
    using ne by (simp only: if_False)
  also have "\<dots> =
     [5200308914369309 / 2 ^ 53, 5200308914369309 / 2 ^ 53, 5200308914369309 / 2 ^ 53]"
    by (simp only: list.map div_by_1 round64_entry)
  finally show ?thesis .
qed

lemma dot_normalized:
  "dot float64
     [5200308914369309 / 2 ^ 53, 5200308914369309 / 2 ^ 53, 5200308914369309 / 2 ^ 53]
     [5200308914369309 / 2 ^ 53, 5200308914369309 / 2 ^ 53, 5200308914369309 / 2 ^ 53] =
   4503599627370497 / 2 ^ 52"
  by (simp only: dot_def zip_Cons_Cons zip_Nil fold_simps fst_conv snd_conv fadd_def fmul_def
      float64_rnd round64_square add_0_left round64_first round64_second round64_third)

lemma twin_documents:
  "map (build_analyzer some_stop_words) (all_texts twin_user [twin_job]) =
     [[''python'', ''developer'', ''python developer''],
      [''python'', ''developer'', ''python developer'']]"
  by code_simp

lemma twin_vocabulary:
  "sort (remdups (concat [[''python'', ''developer'', ''python developer''],
                          [''python'', ''developer'', ''python developer'']])) =
     [''developer'', ''python'', ''python developer'']"
  by code_simp

lemma twin_count_vocab:
  "count_vocab (build_analyzer some_stop_words) (all_texts twin_user [twin_job]) =
     Inr ([''developer'', ''python'', ''python developer''],
          [[''python'', ''developer'', ''python developer''],
           [''python'', ''developer'', ''python developer'']])"
  unfolding count_vocab_def Let_def twin_documents twin_vocabulary by simp

lemma twin_row:
  "tfidf_row float64
     [[''python'', ''developer'', ''python developer''],
      [''python'', ''developer'', ''python developer'']]
     [''developer'', ''python'', ''python developer'']
     [''python'', ''developer'', ''python developer''] =
   [5200308914369309 / 2 ^ 53, 5200308914369309 / 2 ^ 53, 5200308914369309 / 2 ^ 53]"
proof -
  let ?D = "[[''python'', ''developer'', ''python developer''],
             [''python'', ''developer'', ''python developer'']]"
  have i: "idf float64 ?D t = 1"
    if "t \<in> set [''developer'', ''python'', ''python developer'']" for t
    by (rule idf_all_documents) (use that in \<open>auto simp: document_frequency_def\<close>)
  have "map (\<lambda>t. fmul float64 (real (count_list [''python'', ''developer'', ''python developer''] t))
                   (idf float64 ?D t))
          [''developer'', ''python'', ''python developer''] = [1, 1, 1]"
    by (simp add: i fmul_def float64_rnd round64_1)
  then show ?thesis by (simp only: tfidf_row_def l2_normalize_ones)
qed

lemma twin_fit_transform:
  "fit_transform float64 (build_analyzer some_stop_words) (all_texts twin_user [twin_job]) =
     Inr [[5200308914369309 / 2 ^ 53, 5200308914369309 / 2 ^ 53, 5200308914369309 / 2 ^ 53],
          [5200308914369309 / 2 ^ 53, 5200308914369309 / 2 ^ 53, 5200308914369309 / 2 ^ 53]]"
proof -
  have l: "limit_features
             [[''python'', ''developer'', ''python developer''],
              [''python'', ''developer'', ''python developer'']]
             [''developer'', ''python'', ''python developer''] =
           [''developer'', ''python'', ''python developer'']"
    by (simp add: limit_features_def max_features_def)
  show ?thesis
    unfolding fit_transform_def twin_count_vocab
    by (simp only: sum.case prod.case Let_def l list.map twin_row) simp
qed

lemma twin_scores:
  "similarity_scores float64 (build_analyzer some_stop_words) twin_user [twin_job] =
     Inr [4503599627370497 / 2 ^ 52]"
  unfolding similarity_scores_def twin_fit_transform
  by (simp only: sum.case Let_def take_Suc_Cons take_0 drop_Suc_Cons drop_0 One_nat_def
      cosine_similarity_single list.map l2_normalize_normalized dot_normalized list.case)

text \<open>
  Claim C3, at a failing input. The composed text of \<open>twin_user\<close> and the composed
  text of \<open>twin_job\<close> have the same terms (python, developer and their bigram), so both
  TF-IDF rows are the row of three ones, normalised. The claim says that the score is at
  most 1; in 64-bit floats the normalised entries are slightly above the inverse of the
  square root of 3, and the ranker returns the score \<open>1 + 2 ^ -52\<close>, the float next above
  1 (printed 1.0000000000000002).
\<close>

theorem C3_identical_texts_score_above_one:
  "compute_tfidf_recommendations float64 (build_analyzer some_stop_words) twin_user [twin_job] 1 =
     Inr [(twin_job, 1 + 1 / 2 ^ 52)]
   \<and> (1 :: real) < 1 + 1 / 2 ^ 52"
proof -
  have "compute_tfidf_recommendations float64 (build_analyzer some_stop_words) twin_user
          [twin_job] 1 = Inr [(twin_job, 4503599627370497 / 2 ^ 52)]"
    by (simp add: compute_tfidf_recommendations_def twin_scores slice_upto_def
        sort_by_score_desc_def del: power_numeral)
  moreover have "(4503599627370497 / 2 ^ 52 :: real) = 1 + 1 / 2 ^ 52" by simp
  ultimately show ?thesis by simp
qed

text \<open>
  The response schema asks for a score of at most 1, so the route answers this request
  with the validation error of the response and not with the recommendation.
\<close>

lemma twin_request_rejected:
  "post_recommend_with (compute_tfidf_recommendations float64 (build_analyzer some_stop_words))
     \<lparr>body_user_id = Some 5, body_limit = None\<rparr> twin_store =
   Inl (ValidationError ''match_score'')"
proof -
  have c: "compute_tfidf_recommendations float64 (build_analyzer some_stop_words) twin_user
          [twin_job] 10 = Inr [(twin_job, 4503599627370497 / 2 ^ 52)]"
    by (simp add: compute_tfidf_recommendations_def twin_scores slice_upto_def
        sort_by_score_desc_def del: power_numeral)
  have v: "JobResponse_model_validate twin_job = Inr twin_job"
    by (simp add: JobResponse_model_validate_def str_between_def twin_job_def)
  have m: "make_JobRecommendation (twin_job, 4503599627370497 / 2 ^ 52) =
             Inl (ValidationError ''match_score'')"
    by (simp add: make_JobRecommendation_def v)
  show ?thesis
    by (simp add: post_recommend_with_def validate_RecommendationRequest_def
        recommend_jobs_with_def twin_store_def c m del: power_numeral)
       (simp add: twin_user_def)
qed

end
